theory Spec2Isabelle
  imports Complex_Main "HOL-Library.Mapping" "HOL-Library.AList_Mapping" "HOL-Library.Sublist"
begin

section \<open>Python exceptions\<close>

datatype py_error = IndexError | ValueError | OSError

section \<open>Feedback Encoder: \<^verbatim>\<open>get_feedback\<close> (solver.py, helper.py)\<close>

text \<open>
  The two mutable lists of the function: \<^verbatim>\<open>feedback\<close> (a list of the characters
  '0', '1', '2') and \<^verbatim>\<open>answer_copy\<close> (the answer's letters, a consumed one replaced
  by \<^verbatim>\<open>None\<close>).
\<close>

type_synonym fb_state = "char list \<times> char option list"

text \<open>Body of the first loop, \<^verbatim>\<open>for i in range(5)\<close>: exact matches.\<close>

definition first_pass_step :: "string \<Rightarrow> string \<Rightarrow> nat \<Rightarrow> fb_state \<Rightarrow> fb_state" where
  "first_pass_step guess answer i st =
     (case st of (feedback, answer_copy) \<Rightarrow>
        if guess ! i = answer ! i
        then (feedback[i := CHR ''2''], answer_copy[i := None])
        else (feedback, answer_copy))"

text \<open>
  The inner loop \<^verbatim>\<open>for j in range(5)\<close> with its \<^verbatim>\<open>break\<close>: the first index of the
  range that holds the letter is set to \<^verbatim>\<open>None\<close>.
\<close>

fun consume_first :: "nat list \<Rightarrow> char \<Rightarrow> char option list \<Rightarrow> char option list" where
  "consume_first [] c answer_copy = answer_copy"
| "consume_first (j # js) c answer_copy =
     (if answer_copy ! j = Some c then answer_copy[j := None]
      else consume_first js c answer_copy)"

text \<open>Body of the second loop, \<^verbatim>\<open>for i in range(5)\<close>: misplaced letters.\<close>

definition second_pass_step :: "string \<Rightarrow> nat \<Rightarrow> fb_state \<Rightarrow> fb_state" where
  "second_pass_step guess i st =
     (case st of (feedback, answer_copy) \<Rightarrow>
        if feedback ! i = CHR ''0'' \<and> Some (guess ! i) \<in> set answer_copy
        then (feedback[i := CHR ''1''], consume_first [0..<5] (guess ! i) answer_copy)
        else (feedback, answer_copy))"

text \<open>
  \<^verbatim>\<open>guess[i] == answer[i]\<close> raises IndexError in the first loop when either string has
  fewer than five characters; after the first loop no access can fail.
\<close>

definition get_feedback :: "string \<Rightarrow> string \<Rightarrow> py_error + string" where
  "get_feedback guess answer =
     (if length guess < 5 \<or> length answer < 5 then Inl IndexError
      else Inr (fst (fold (second_pass_step guess) [0..<5]
                  (fold (first_pass_step guess answer) [0..<5]
                     (replicate 5 CHR ''0'', map Some answer)))))"

section \<open>Pattern Cache and Candidate Filter (solver.py)\<close>

text \<open>
  The module globals \<^verbatim>\<open>_precomputed_patterns\<close> (a dict from answer word to a dict from
  guess word to pattern) and \<^verbatim>\<open>_cache_dirty\<close>. The word lists \<^verbatim>\<open>possible_answers\<close>
  and \<^verbatim>\<open>allowed_guesses\<close> are read from files that are not part of the sources, so
  every function takes them as arguments.
\<close>

type_synonym pattern_cache = "(string, (string, string) mapping) mapping"

record solver_state =
  precomputed_patterns :: pattern_cache
  cache_dirty :: bool

text \<open>
  The lookup that \<^verbatim>\<open>filter_possible_answers\<close> (lines 92-97) and \<^verbatim>\<open>minimax_entropy\<close>
  (lines 151-156) both write inline: create the word's row when it is missing, compute and
  store the pattern when the guess is missing from the row (setting the dirty flag), then
  read the entry. An exception of \<^verbatim>\<open>get_feedback\<close> ends the call; the state is then
  not returned.
\<close>

definition lookup_or_compute ::
  "string \<Rightarrow> string \<Rightarrow> solver_state \<Rightarrow> py_error + (string \<times> solver_state)" where
  "lookup_or_compute word guess st =
     (let pp = precomputed_patterns st;
          pp1 = (case Mapping.lookup pp word of
                   None \<Rightarrow> Mapping.update word Mapping.empty pp
                 | Some _ \<Rightarrow> pp);
          row = Mapping.lookup_default Mapping.empty pp1 word
      in case Mapping.lookup row guess of
           None \<Rightarrow>
             (case get_feedback guess word of
                Inl e \<Rightarrow> Inl e
              | Inr p \<Rightarrow>
                  Inr (p, st\<lparr>precomputed_patterns :=
                               Mapping.update word (Mapping.update guess p row) pp1,
                             cache_dirty := True\<rparr>))
         | Some p \<Rightarrow> Inr (p, st\<lparr>precomputed_patterns := pp1\<rparr>))"

text \<open>The loop \<^verbatim>\<open>for word in filtered_answers\<close> of the branch that uses the cache.\<close>

fun filter_cached ::
  "string \<Rightarrow> string \<Rightarrow> string list \<Rightarrow> solver_state \<Rightarrow> py_error + (string list \<times> solver_state)" where
  "filter_cached guess feedback [] st = Inr ([], st)"
| "filter_cached guess feedback (word # words) st =
     (case lookup_or_compute word guess st of
        Inl e \<Rightarrow> Inl e
      | Inr (p, st1) \<Rightarrow>
          (case filter_cached guess feedback words st1 of
             Inl e \<Rightarrow> Inl e
           | Inr (new_filtered, st2) \<Rightarrow>
               Inr (if p = feedback then word # new_filtered else new_filtered, st2)))"

text \<open>The list comprehension of the fallback branch.\<close>

fun filter_computed :: "string \<Rightarrow> string \<Rightarrow> string list \<Rightarrow> py_error + string list" where
  "filter_computed guess feedback [] = Inr []"
| "filter_computed guess feedback (word # words) =
     (case get_feedback guess word of
        Inl e \<Rightarrow> Inl e
      | Inr p \<Rightarrow>
          (case filter_computed guess feedback words of
             Inl e \<Rightarrow> Inl e
           | Inr kept \<Rightarrow> Inr (if p = feedback then word # kept else kept)))"

text \<open>
  The loop \<^verbatim>\<open>for guess, feedback in zip(guesses, feedbacks)\<close>; the test
  \<^verbatim>\<open>if _precomputed_patterns\<close> is the dict's truth value: it is not empty.
\<close>

fun filter_loop ::
  "(string \<times> string) list \<Rightarrow> string list \<Rightarrow> solver_state \<Rightarrow> py_error + (string list \<times> solver_state)" where
  "filter_loop [] filtered_answers st = Inr (filtered_answers, st)"
| "filter_loop ((guess, feedback) # history) filtered_answers st =
     (if \<not> Mapping.is_empty (precomputed_patterns st)
      then (case filter_cached guess feedback filtered_answers st of
              Inl e \<Rightarrow> Inl e
            | Inr (new_filtered, st1) \<Rightarrow> filter_loop history new_filtered st1)
      else (case filter_computed guess feedback filtered_answers of
              Inl e \<Rightarrow> Inl e
            | Inr new_filtered \<Rightarrow> filter_loop history new_filtered st))"

definition filter_possible_answers ::
  "string list \<Rightarrow> string list \<Rightarrow> string list \<Rightarrow> solver_state \<Rightarrow> py_error + (string list \<times> solver_state)" where
  "filter_possible_answers possible_answers guesses feedbacks st =
     filter_loop (zip guesses feedbacks) possible_answers st"

section \<open>Candidate Filter (helper.py)\<close>

text \<open>
  helper.py has its own copy of \<^verbatim>\<open>get_feedback\<close>, the same text as solver.py's, and a
  filter that reads the cache and never writes it: a present entry is used, anything else
  is computed.
\<close>

definition helper_pattern :: "pattern_cache \<Rightarrow> string \<Rightarrow> string \<Rightarrow> py_error + string" where
  "helper_pattern pp word guess =
     (case Mapping.lookup pp word of
        None \<Rightarrow> get_feedback guess word
      | Some row \<Rightarrow>
          (case Mapping.lookup row guess of
             None \<Rightarrow> get_feedback guess word
           | Some p \<Rightarrow> Inr p))"

fun helper_filter_cached ::
  "pattern_cache \<Rightarrow> string \<Rightarrow> string \<Rightarrow> string list \<Rightarrow> py_error + string list" where
  "helper_filter_cached pp guess feedback [] = Inr []"
| "helper_filter_cached pp guess feedback (word # words) =
     (case helper_pattern pp word guess of
        Inl e \<Rightarrow> Inl e
      | Inr p \<Rightarrow>
          (case helper_filter_cached pp guess feedback words of
             Inl e \<Rightarrow> Inl e
           | Inr new_filtered \<Rightarrow> Inr (if p = feedback then word # new_filtered else new_filtered)))"

fun helper_filter_loop ::
  "pattern_cache \<Rightarrow> (string \<times> string) list \<Rightarrow> string list \<Rightarrow> py_error + string list" where
  "helper_filter_loop pp [] filtered_answers = Inr filtered_answers"
| "helper_filter_loop pp ((guess, feedback) # history) filtered_answers =
     (case (if \<not> Mapping.is_empty pp
            then helper_filter_cached pp guess feedback filtered_answers
            else filter_computed guess feedback filtered_answers) of
        Inl e \<Rightarrow> Inl e
      | Inr new_filtered \<Rightarrow> helper_filter_loop pp history new_filtered)"

definition helper_filter_possible_answers ::
  "pattern_cache \<Rightarrow> string list \<Rightarrow> string list \<Rightarrow> string list \<Rightarrow> py_error + string list" where
  "helper_filter_possible_answers pp possible_answers guesses feedbacks =
     helper_filter_loop pp (zip guesses feedbacks) possible_answers"

section \<open>Hard-Mode Legality Checker: \<^verbatim>\<open>enforce_hard_mode_constraints\<close> (solver_hard_mode.py)\<close>

text \<open>
  The three locals that the function folds the history into. \<^verbatim>\<open>yellow_letters\<close> and the
  values of \<^verbatim>\<open>yellow_positions\<close> are Python sets; they are kept here as duplicate-free
  lists in insertion order. Python iterates a set in an order of its own, which only decides
  whether a \<^verbatim>\<open>False\<close> or an IndexError comes first when the guess is shorter than a
  flagged position. \<^verbatim>\<open>yellow_positions\<close> is a dict whose missing keys
  \<^verbatim>\<open>setdefault\<close> fills with the empty set, and it is only read at keys that are present.
\<close>

record hard_mode_state =
  green_positions :: "char option list"
  yellow_letters :: "char list"
  yellow_positions :: "char \<Rightarrow> nat list"

text \<open>A \<^verbatim>\<open>for\<close> loop whose body may raise: the first exception ends the loop.\<close>

fun for_each :: "('a \<Rightarrow> 's \<Rightarrow> py_error + 's) \<Rightarrow> 'a list \<Rightarrow> 's \<Rightarrow> py_error + 's" where
  "for_each body [] s = Inr s"
| "for_each body (x # xs) s =
     (case body x s of Inl e \<Rightarrow> Inl e | Inr s' \<Rightarrow> for_each body xs s')"

text \<open>
  The body of the inner loop. \<^verbatim>\<open>green_positions[i] = g_letter\<close> raises IndexError when
  \<^verbatim>\<open>i\<close> is outside the five-element list.
\<close>

definition record_letter :: "nat \<Rightarrow> char \<Rightarrow> char \<Rightarrow> hard_mode_state \<Rightarrow> py_error + hard_mode_state" where
  "record_letter i g_letter f s =
     (if f = CHR ''2'' then
        (if i < length (green_positions s)
         then Inr (s\<lparr>green_positions := (green_positions s)[i := Some g_letter]\<rparr>)
         else Inl IndexError)
      else if f = CHR ''1'' then
        Inr (s\<lparr>yellow_letters := List.insert g_letter (yellow_letters s),
               yellow_positions := (yellow_positions s)
                  (g_letter := List.insert i (yellow_positions s g_letter))\<rparr>)
      else Inr s)"

text \<open>
  The two nested loops, \<^verbatim>\<open>for prev_guess, fb in zip(guesses, feedbacks)\<close> and
  \<^verbatim>\<open>for i, (g_letter, f) in enumerate(zip(prev_guess, fb))\<close>.
\<close>

definition record_history :: "(string \<times> string) list \<Rightarrow> hard_mode_state \<Rightarrow> py_error + hard_mode_state" where
  "record_history =
     for_each (\<lambda>(prev_guess, fb).
       for_each (\<lambda>(i, g_letter, f). record_letter i g_letter f)
         (enumerate 0 (zip prev_guess fb)))"

text \<open>
  The green check, over \<^verbatim>\<open>enumerate(green_positions)\<close>: \<^verbatim>\<open>guess[i]\<close> is read only
  when the position is pinned, and raises IndexError past the end of the guess.
\<close>

fun check_green :: "(nat \<times> char option) list \<Rightarrow> string \<Rightarrow> py_error + bool" where
  "check_green [] guess = Inr True"
| "check_green ((i, None) # rest) guess = check_green rest guess"
| "check_green ((i, Some letter) # rest) guess =
     (if length guess \<le> i then Inl IndexError
      else if guess ! i \<noteq> letter then Inr False
      else check_green rest guess)"

text \<open>The yellow check: the inner loop over the letter's forbidden positions, then the outer one.\<close>

fun check_positions :: "char \<Rightarrow> nat list \<Rightarrow> string \<Rightarrow> py_error + bool" where
  "check_positions letter [] guess = Inr True"
| "check_positions letter (pos # rest) guess =
     (if length guess \<le> pos then Inl IndexError
      else if guess ! pos = letter then Inr False
      else check_positions letter rest guess)"

fun check_yellow :: "char list \<Rightarrow> (char \<Rightarrow> nat list) \<Rightarrow> string \<Rightarrow> py_error + bool" where
  "check_yellow [] yp guess = Inr True"
| "check_yellow (letter # rest) yp guess =
     (if letter \<notin> set guess then Inr False
      else (case check_positions letter (yp letter) guess of
              Inl e \<Rightarrow> Inl e
            | Inr ok \<Rightarrow> if ok then check_yellow rest yp guess else Inr False))"

definition enforce_hard_mode_constraints :: "string list \<Rightarrow> string list \<Rightarrow> string \<Rightarrow> py_error + bool" where
  "enforce_hard_mode_constraints guesses feedbacks guess =
     (case record_history (zip guesses feedbacks)
             \<lparr>green_positions = replicate 5 None, yellow_letters = [],
              yellow_positions = (\<lambda>_. [])\<rparr> of
        Inl e \<Rightarrow> Inl e
      | Inr s \<Rightarrow>
          (case check_green (enumerate 0 (green_positions s)) guess of
             Inl e \<Rightarrow> Inl e
           | Inr ok \<Rightarrow>
               if ok then check_yellow (yellow_letters s) (yellow_positions s) guess
               else Inr False))"

section \<open>Guess Selector: \<^verbatim>\<open>minimax_entropy\<close> (solver.py)\<close>

text \<open>
  What the function reads besides its arguments: the module global
  \<^verbatim>\<open>_first_guess_cache\<close> (\<^verbatim>\<open>None\<close>, or the dict unpickled from
  first_guesses_cache.pkl) and the words that
  \<^verbatim>\<open>read_word_list('possible_wordle_answers.txt')\<close> returns when it is called
  (\<^verbatim>\<open>None\<close> here when the file cannot be opened).
\<close>

record solver_env =
  first_guess_cache :: "(string, string) mapping option"
  answers_file :: "string list option"

text \<open>
  Lines 126-129. The test \<^verbatim>\<open>len(possible_answers) == len(possible_answers)\<close> is always
  true; the file is read only when the cache is a non-empty dict; a cached guess is
  returned when it is a non-empty string found in one of the two lists.
\<close>

definition first_guess_shortcut ::
  "solver_env \<Rightarrow> string list \<Rightarrow> string list \<Rightarrow> py_error + string option" where
  "first_guess_shortcut env possible_answers allowed_guesses =
     (case first_guess_cache env of
        None \<Rightarrow> Inr None
      | Some cache \<Rightarrow>
          if Mapping.is_empty cache then Inr None
          else (case answers_file env of
                  None \<Rightarrow> Inl OSError
                | Some file_words \<Rightarrow>
                    if set possible_answers = set file_words
                    then (case Mapping.lookup cache ''minimax_entropy'' of
                            None \<Rightarrow> Inr None
                          | Some fg \<Rightarrow>
                              if fg \<noteq> [] \<and> (fg \<in> set allowed_guesses \<or> fg \<in> set possible_answers)
                              then Inr (Some fg) else Inr None)
                    else Inr None))"

text \<open>
  The score is computed in Python floats: \<^verbatim>\<open>count/total\<close> is the true division of two
  ints, its product with \<^verbatim>\<open>count\<close> and the additions of \<^verbatim>\<open>sum\<close> are float
  operations, each rounded, so the sum depends on the order of its terms. The scores are
  only compared with each other (\<^verbatim>\<open><\<close> and \<^verbatim>\<open>==\<close>), and they are finite and never
  NaN, so their type is any linear order and the four operations are taken as given.
  \<^verbatim>\<open>sum\<close> starts from 0 and adds the terms from left to right.
\<close>

record 'f arith =
  f_div :: "nat \<Rightarrow> nat \<Rightarrow> 'f"
  f_mul :: "'f \<Rightarrow> nat \<Rightarrow> 'f"
  f_add :: "'f \<Rightarrow> 'f \<Rightarrow> 'f"
  f_zero :: "'f"

text \<open>
  \<^verbatim>\<open>pattern_counts[pattern] = pattern_counts.get(pattern, 0) + 1\<close>; a dict keeps its keys
  in insertion order, and \<^verbatim>\<open>values()\<close> is read in that order.
\<close>

fun count_pattern :: "string \<Rightarrow> (string \<times> nat) list \<Rightarrow> (string \<times> nat) list" where
  "count_pattern pattern [] = [(pattern, 1)]"
| "count_pattern pattern ((q, n) # rest) =
     (if q = pattern then (q, n + 1) # rest else (q, n) # count_pattern pattern rest)"

text \<open>The loop \<^verbatim>\<open>for answer in possible_answers\<close>, through the cache and without it.\<close>

fun count_cached ::
  "string \<Rightarrow> string list \<Rightarrow> (string \<times> nat) list \<Rightarrow> solver_state
     \<Rightarrow> py_error + ((string \<times> nat) list \<times> solver_state)" where
  "count_cached guess [] pattern_counts st = Inr (pattern_counts, st)"
| "count_cached guess (answer # answers) pattern_counts st =
     (case lookup_or_compute answer guess st of
        Inl e \<Rightarrow> Inl e
      | Inr (pattern, st1) \<Rightarrow>
          count_cached guess answers (count_pattern pattern pattern_counts) st1)"

fun count_computed ::
  "string \<Rightarrow> string list \<Rightarrow> (string \<times> nat) list \<Rightarrow> py_error + (string \<times> nat) list" where
  "count_computed guess [] pattern_counts = Inr pattern_counts"
| "count_computed guess (answer # answers) pattern_counts =
     (case get_feedback guess answer of
        Inl e \<Rightarrow> Inl e
      | Inr pattern \<Rightarrow> count_computed guess answers (count_pattern pattern pattern_counts))"

definition count_patterns ::
  "string \<Rightarrow> string list \<Rightarrow> solver_state \<Rightarrow> py_error + ((string \<times> nat) list \<times> solver_state)" where
  "count_patterns guess possible_answers st =
     (if \<not> Mapping.is_empty (precomputed_patterns st)
      then count_cached guess possible_answers [] st
      else (case count_computed guess possible_answers [] of
              Inl e \<Rightarrow> Inl e
            | Inr pattern_counts \<Rightarrow> Inr (pattern_counts, st)))"

text \<open>
  \<^verbatim>\<open>total = sum(pattern_counts.values())\<close> and
  \<^verbatim>\<open>expected = sum((count/total) * count for count in pattern_counts.values())\<close>.
  No count is zero, so the division cannot fail.
\<close>

definition expected_size :: "'f arith \<Rightarrow> (string \<times> nat) list \<Rightarrow> 'f" where
  "expected_size ar pattern_counts =
     (let total = sum_list (map snd pattern_counts)
      in foldl (f_add ar) (f_zero ar)
           (map (\<lambda>count. f_mul ar (f_div ar count total) count) (map snd pattern_counts)))"

text \<open>
  \<^verbatim>\<open>expected < best_score\<close>, where \<^verbatim>\<open>best_score\<close> starts as \<^verbatim>\<open>float('inf')\<close>,
  here \<^verbatim>\<open>None\<close>: every score is below it and none is equal to it.
\<close>

definition less_than_best :: "'f::linorder \<Rightarrow> 'f option \<Rightarrow> bool" where
  "less_than_best expected best_score =
     (case best_score of None \<Rightarrow> True | Some b \<Rightarrow> expected < b)"

text \<open>The loop \<^verbatim>\<open>for guess in guess_pool\<close>, lines 145-170.\<close>

fun score_pool ::
  "'f::linorder arith \<Rightarrow> string list \<Rightarrow> string list \<Rightarrow> 'f option \<Rightarrow> string list \<Rightarrow> solver_state
     \<Rightarrow> py_error + (('f option \<times> string list) \<times> solver_state)" where
  "score_pool ar possible_answers [] best_score best_guesses st =
     Inr ((best_score, best_guesses), st)"
| "score_pool ar possible_answers (guess # guess_pool) best_score best_guesses st =
     (case count_patterns guess possible_answers st of
        Inl e \<Rightarrow> Inl e
      | Inr (pattern_counts, st1) \<Rightarrow>
          (let expected = expected_size ar pattern_counts in
           if less_than_best expected best_score
           then score_pool ar possible_answers guess_pool (Some expected) [guess] st1
           else if best_score = Some expected
           then score_pool ar possible_answers guess_pool best_score (best_guesses @ [guess]) st1
           else score_pool ar possible_answers guess_pool best_score best_guesses st1))"

text \<open>
  \<^verbatim>\<open>list(set(allowed_guesses + possible_answers))\<close> lists the words of the two lists, each
  once, in the iteration order of a Python set, which the language leaves open: the function
  \<^verbatim>\<open>list_of_set\<close> stands for it.
\<close>

definition minimax_entropy ::
  "solver_env \<Rightarrow> 'f::linorder arith \<Rightarrow> (string list \<Rightarrow> string list) \<Rightarrow> string list \<Rightarrow> string list
     \<Rightarrow> solver_state \<Rightarrow> py_error + (string \<times> solver_state)" where
  "minimax_entropy env ar list_of_set possible_answers allowed_guesses st =
     (case first_guess_shortcut env possible_answers allowed_guesses of
        Inl e \<Rightarrow> Inl e
      | Inr (Some fg) \<Rightarrow> Inr (fg, st)
      | Inr None \<Rightarrow>
          if length possible_answers = 0 then Inl ValueError
          else if length possible_answers = 1 then Inr (possible_answers ! 0, st)
          else
            (let guess_pool = (if length possible_answers \<le> 2 then possible_answers
                               else list_of_set (allowed_guesses @ possible_answers))
             in case score_pool ar possible_answers guess_pool None [] st of
                  Inl e \<Rightarrow> Inl e
                | Inr ((best_score, best_guesses), st1) \<Rightarrow>
                    if best_guesses = []
                    then (case allowed_guesses of
                            [] \<Rightarrow> Inl IndexError
                          | g # _ \<Rightarrow> Inr (g, st1))
                    else (case find (\<lambda>guess. guess \<in> set possible_answers) best_guesses of
                            Some guess \<Rightarrow> Inr (guess, st1)
                          | None \<Rightarrow> Inr (best_guesses ! 0, st1))))"

section \<open>Hard-mode Guess Selector: \<^verbatim>\<open>minimax_entropy_hard_mode\<close> (solver_hard_mode.py)\<close>

text \<open>The two list comprehensions; an exception of the checker ends them.\<close>

fun filter_legal :: "string list \<Rightarrow> string list \<Rightarrow> string list \<Rightarrow> py_error + string list" where
  "filter_legal guesses feedbacks [] = Inr []"
| "filter_legal guesses feedbacks (g # gs) =
     (case enforce_hard_mode_constraints guesses feedbacks g of
        Inl e \<Rightarrow> Inl e
      | Inr ok \<Rightarrow>
          (case filter_legal guesses feedbacks gs of
             Inl e \<Rightarrow> Inl e
           | Inr valid \<Rightarrow> Inr (if ok then g # valid else valid)))"

definition minimax_entropy_hard_mode ::
  "solver_env \<Rightarrow> 'f::linorder arith \<Rightarrow> (string list \<Rightarrow> string list) \<Rightarrow> string list \<Rightarrow> string list
     \<Rightarrow> string list \<Rightarrow> string list \<Rightarrow> solver_state \<Rightarrow> py_error + (string \<times> solver_state)" where
  "minimax_entropy_hard_mode env ar list_of_set possible allowed guesses feedbacks st =
     (case filter_legal guesses feedbacks allowed of
        Inl e \<Rightarrow> Inl e
      | Inr valid_allowed \<Rightarrow>
          (case filter_legal guesses feedbacks possible of
             Inl e \<Rightarrow> Inl e
           | Inr valid_possible \<Rightarrow>
               minimax_entropy env ar list_of_set
                 (if valid_possible = [] then possible else valid_possible)
                 (if valid_allowed = [] then allowed else valid_allowed) st))"

section \<open>Simulation Harness: \<^verbatim>\<open>simulate_game\<close> and \<^verbatim>\<open>simulate_game_hard_mode\<close>\<close>

text \<open>
  \<^verbatim>\<open>guess, _ = strategy_func(possible, allowed_guesses)\<close> unpacks what the strategy
  returns into two names. \<^verbatim>\<open>minimax_entropy\<close> returns a string: unpacking it iterates
  over its characters, and raises ValueError unless there are exactly two.
\<close>

definition unpack_pair :: "string \<Rightarrow> py_error + (string \<times> string)" where
  "unpack_pair s = (if length s = 2 then Inr ([s ! 0], [s ! 1]) else Inl ValueError)"

text \<open>
  The loop \<^verbatim>\<open>for attempt in range(1, 7)\<close> of average_score_calculator.py.
  \<^verbatim>\<open>minimax_entropy\<close> is a function without a \<^verbatim>\<open>get_feedback\<close> attribute, so
  \<^verbatim>\<open>fb\<close> is always computed by solver.py's \<^verbatim>\<open>get_feedback\<close>. The strategy is an
  argument; it may read and write a state of its own.
\<close>

fun simulate_attempts ::
  "(string list \<Rightarrow> string list \<Rightarrow> 's \<Rightarrow> py_error + (string \<times> 's))
     \<Rightarrow> string \<Rightarrow> string list \<Rightarrow> nat list \<Rightarrow> string list \<Rightarrow> 's \<Rightarrow> py_error + nat" where
  "simulate_attempts strategy_func answer allowed_guesses [] possible st = Inr 7"
| "simulate_attempts strategy_func answer allowed_guesses (attempt # attempts) possible st =
     (case strategy_func possible allowed_guesses st of
        Inl e \<Rightarrow> Inl e
      | Inr (result, st1) \<Rightarrow>
          (case unpack_pair result of
             Inl e \<Rightarrow> Inl e
           | Inr (guess, _) \<Rightarrow>
               if guess = answer then Inr attempt
               else (case get_feedback guess answer of
                       Inl e \<Rightarrow> Inl e
                     | Inr fb \<Rightarrow>
                         (case filter_computed guess fb possible of
                            Inl e \<Rightarrow> Inl e
                          | Inr possible' \<Rightarrow>
                              simulate_attempts strategy_func answer allowed_guesses attempts
                                possible' st1))))"

definition simulate_game ::
  "string \<Rightarrow> (string list \<Rightarrow> string list \<Rightarrow> 's \<Rightarrow> py_error + (string \<times> 's))
     \<Rightarrow> string list \<Rightarrow> string list \<Rightarrow> 's \<Rightarrow> py_error + nat" where
  "simulate_game answer strategy_func allowed_guesses possible_answers st =
     simulate_attempts strategy_func answer allowed_guesses [1..<7] possible_answers st"

text \<open>
  The same loop in average_score_calculator_hard_mode.py, which also passes the guesses and
  feedbacks so far to the strategy.
\<close>

fun simulate_attempts_hard_mode ::
  "solver_env \<Rightarrow> 'f::linorder arith \<Rightarrow> (string list \<Rightarrow> string list) \<Rightarrow> string list \<Rightarrow> string
     \<Rightarrow> nat list \<Rightarrow> string list \<Rightarrow> string list \<Rightarrow> string list \<Rightarrow> solver_state \<Rightarrow> py_error + nat" where
  "simulate_attempts_hard_mode env ar list_of_set allowed_guesses answer [] guesses feedbacks possible st = Inr 7"
| "simulate_attempts_hard_mode env ar list_of_set allowed_guesses answer (attempt # attempts)
      guesses feedbacks possible st =
     (case minimax_entropy_hard_mode env ar list_of_set possible allowed_guesses guesses feedbacks st of
        Inl e \<Rightarrow> Inl e
      | Inr (result, st1) \<Rightarrow>
          (case unpack_pair result of
             Inl e \<Rightarrow> Inl e
           | Inr (guess, _) \<Rightarrow>
               if guess = answer then Inr attempt
               else (case get_feedback guess answer of
                       Inl e \<Rightarrow> Inl e
                     | Inr fb \<Rightarrow>
                         (case filter_computed guess fb possible of
                            Inl e \<Rightarrow> Inl e
                          | Inr possible' \<Rightarrow>
                              simulate_attempts_hard_mode env ar list_of_set allowed_guesses answer
                                attempts (guesses @ [guess]) (feedbacks @ [fb]) possible' st1))))"

definition simulate_game_hard_mode ::
  "solver_env \<Rightarrow> 'f::linorder arith \<Rightarrow> (string list \<Rightarrow> string list) \<Rightarrow> string list \<Rightarrow> string list
     \<Rightarrow> string \<Rightarrow> solver_state \<Rightarrow> py_error + nat" where
  "simulate_game_hard_mode env ar list_of_set allowed_guesses possible_answers answer st =
     simulate_attempts_hard_mode env ar list_of_set allowed_guesses answer [1..<7] [] []
       possible_answers st"

section \<open>Specification of the encoder: the two passes, by consumed positions\<close>

datatype mark = ABSENT | MISPLACED | EXACT

fun mark_char :: "mark \<Rightarrow> char" where
  "mark_char ABSENT = CHR ''0''"
| "mark_char MISPLACED = CHR ''1''"
| "mark_char EXACT = CHR ''2''"

text \<open>Pass 1: the positions where guess and secret agree; the secret's letter there is consumed.\<close>

definition exact_positions :: "string \<Rightarrow> string \<Rightarrow> nat set" where
  "exact_positions guess secret = Set.filter (\<lambda>i. guess ! i = secret ! i) {0..<5}"

text \<open>
  Pass 2, over the positions in the given order, with the set of consumed positions of the
  secret: a position that is not EXACT is MISPLACED when its letter stands at an unconsumed
  position of the secret, and the leftmost such position is consumed; otherwise it is
  ABSENT.
\<close>

fun misplaced_pass :: "string \<Rightarrow> string \<Rightarrow> nat list \<Rightarrow> nat set \<Rightarrow> mark list" where
  "misplaced_pass guess secret [] consumed = []"
| "misplaced_pass guess secret (i # is) consumed =
     (if guess ! i = secret ! i then EXACT # misplaced_pass guess secret is consumed
      else (case find (\<lambda>j. j \<notin> consumed \<and> secret ! j = guess ! i) [0..<5] of
              Some j \<Rightarrow> MISPLACED # misplaced_pass guess secret is (insert j consumed)
            | None \<Rightarrow> ABSENT # misplaced_pass guess secret is consumed))"

definition two_pass_pattern :: "string \<Rightarrow> string \<Rightarrow> mark list" where
  "two_pass_pattern guess secret =
     misplaced_pass guess secret [0..<5] (exact_positions guess secret)"

text \<open>
  The relation between \<^verbatim>\<open>answer_copy\<close> and the set of consumed positions that the
  second loop keeps.
\<close>

definition ac_inv :: "string \<Rightarrow> char option list \<Rightarrow> nat set \<Rightarrow> bool" where
  "ac_inv a ac consumed \<longleftrightarrow>
     length ac = 5 \<and> (\<forall>j<5. ac ! j = (if j \<in> consumed then None else Some (a ! j)))"

section \<open>Specification of the filter\<close>

text \<open>A word is consistent with a history when the encoder gives every recorded feedback.\<close>

definition consistent_with :: "string list \<Rightarrow> string list \<Rightarrow> string \<Rightarrow> bool" where
  "consistent_with guesses feedbacks w \<longleftrightarrow>
     (\<forall>(guess, feedback) \<in> set (zip guesses feedbacks). get_feedback guess w = Inr feedback)"

text \<open>Every cache entry for one of the words and one of the guesses is the encoder's pattern.\<close>

definition cache_agrees :: "pattern_cache \<Rightarrow> string list \<Rightarrow> string list \<Rightarrow> bool" where
  "cache_agrees pp words guesses \<longleftrightarrow>
     (\<forall>w \<in> set words. \<forall>g \<in> set guesses.
        case Mapping.lookup pp w of
          None \<Rightarrow> True
        | Some row \<Rightarrow>
            (case Mapping.lookup row g of None \<Rightarrow> True | Some p \<Rightarrow> get_feedback g w = Inr p))"

section \<open>Specification of the hard-mode legality test\<close>







text \<open>
  For the proof: the marks of a history in the order the loops visit them, the last EXACT
  letter among them at a position, and what the three locals hold after the marks.
\<close>

definition marks :: "(string \<times> string) list \<Rightarrow> (nat \<times> char \<times> char) list" where
  "marks H = concat (map (\<lambda>(prev_guess, fb). enumerate 0 (zip prev_guess fb)) H)"



section \<open>Specification of the guess selector\<close>


text \<open>
  The buckets of a guess: the patterns it gets against the candidates, in the order in
  which they first appear, each with the number of candidates that give it.
\<close>

definition first_occurrences :: "'a list \<Rightarrow> 'a list" where
  "first_occurrences xs = rev (remdups (rev xs))"







section \<open>Example values\<close>

text \<open>
  Exact rational arithmetic as one instance of the score's operations; an environment
  without a first-guess cache; an empty pattern cache; and an environment whose
  first-guess cache names SLATE and whose answer file holds the single word CRANE.
\<close>

definition exact_arith :: "rat arith" where
  "exact_arith = \<lparr>f_div = (\<lambda>a b. of_nat a / of_nat b), f_mul = (\<lambda>x n. x * of_nat n),
                   f_add = (+), f_zero = 0\<rparr>"

definition no_first_guess :: solver_env where
  "no_first_guess = \<lparr>first_guess_cache = None, answers_file = None\<rparr>"

definition empty_cache :: solver_state where
  "empty_cache = \<lparr>precomputed_patterns = Mapping.empty, cache_dirty = False\<rparr>"

definition slate_first :: solver_env where
  "slate_first = \<lparr>first_guess_cache = Some (Mapping.update ''minimax_entropy'' ''slate'' Mapping.empty),
                   answers_file = Some [''crane'']\<rparr>"

section \<open>The encoder: evaluation and the two passes\<close>

lemma range5: "[0..<5] = [0, 1, 2, 3, 4]"
  by (simp add: upt_rec)

lemma replicate5: "replicate 5 x = [x, x, x, x, x]"
  by (simp add: eval_nat_numeral)

lemmas fb_eval = get_feedback_def range5 replicate5 first_pass_step_def second_pass_step_def

lemma first_pass_fold:
  "fold (first_pass_step g a) js (fb, ac) =
     (fold (\<lambda>i f. if g ! i = a ! i then f[i := CHR ''2''] else f) js fb,
      fold (\<lambda>i c. if g ! i = a ! i then c[i := None] else c) js ac)"
  by (induction js arbitrary: fb ac) (auto simp: first_pass_step_def)

lemma fold_upd_length:
  "length (fold (\<lambda>i f. if P i then f[i := v i] else f) js xs) = length xs"
  by (induction js arbitrary: xs) auto

lemma fold_upd_nth:
  "k < length xs \<Longrightarrow>
   fold (\<lambda>i f. if P i then f[i := v] else f) js xs ! k =
     (if k \<in> set js \<and> P k then v else xs ! k)"
  by (induction js arbitrary: xs) (auto, metis nth_list_update_neq)

lemma consume_first_find:
  "ac_inv a ac consumed \<Longrightarrow> set js \<subseteq> {..<5} \<Longrightarrow>
   consume_first js c ac =
     (case find (\<lambda>j. j \<notin> consumed \<and> a ! j = c) js of
        None \<Rightarrow> ac | Some j \<Rightarrow> ac[j := None])"
  by (induction js) (auto simp: ac_inv_def)

lemma member_find:
  "ac_inv a ac consumed \<Longrightarrow>
   Some c \<in> set ac \<longleftrightarrow> find (\<lambda>j. j \<notin> consumed \<and> a ! j = c) [0..<5] \<noteq> None"
  unfolding ac_inv_def in_set_conv_nth find_None_iff
  by (auto split: if_splits) (metis option.inject option.distinct(1))+

lemma ac_inv_consume:
  "ac_inv a ac consumed \<Longrightarrow> find (\<lambda>j. j \<notin> consumed \<and> a ! j = c) [0..<5] = Some j \<Longrightarrow>
   ac_inv a (ac[j := None]) (insert j consumed)"
  by (auto simp: ac_inv_def find_Some_iff nth_list_update)

lemma second_pass_fold:
  "distinct is \<Longrightarrow> set is \<subseteq> {..<5} \<Longrightarrow> length fb = 5 \<Longrightarrow> ac_inv a ac consumed \<Longrightarrow>
   \<forall>i\<in>set is. fb ! i = (if g ! i = a ! i then CHR ''2'' else CHR ''0'') \<Longrightarrow>
   map ((!) (fst (fold (second_pass_step g) is (fb, ac)))) is =
       map mark_char (misplaced_pass g a is consumed)
   \<and> (\<forall>k. k \<notin> set is \<longrightarrow> fst (fold (second_pass_step g) is (fb, ac)) ! k = fb ! k)
   \<and> length (fst (fold (second_pass_step g) is (fb, ac))) = 5"
proof (induction "is" arbitrary: fb ac consumed)
  case Nil
  then show ?case by simp
next
  case (Cons i rest)
  let ?P = "\<lambda>j. j \<notin> consumed \<and> a ! j = g ! i"
  have i5: "i < 5" and inotin: "i \<notin> set rest" and d: "distinct rest" and sub: "set rest \<subseteq> {..<5}"
    using Cons.prems by auto
  have fbi: "fb ! i = (if g ! i = a ! i then CHR ''2'' else CHR ''0'')"
    using Cons.prems by simp
  show ?case
  proof (cases "g ! i \<noteq> a ! i \<and> find ?P [0..<5] \<noteq> None")
    case True
    then obtain j where j: "find ?P [0..<5] = Some j" by auto
    have mem: "Some (g ! i) \<in> set ac"
      using member_find[OF Cons.prems(4), of "g ! i"] True by simp
    have r5: "set [0..<5] \<subseteq> {..<5::nat}" by auto
    have step: "second_pass_step g i (fb, ac) = (fb[i := CHR ''1''], ac[j := None])"
      using True mem fbi j consume_first_find[OF Cons.prems(4) r5, of "g ! i"]
      by (simp add: second_pass_step_def)
    have inv': "ac_inv a (ac[j := None]) (insert j consumed)"
      by (rule ac_inv_consume[OF Cons.prems(4) j])
    have fb': "\<forall>k\<in>set rest. fb[i := CHR ''1''] ! k = (if g ! k = a ! k then CHR ''2'' else CHR ''0'')"
    proof
      fix k assume k: "k \<in> set rest"
      then have "k \<noteq> i" using inotin by auto
      then show "fb[i := CHR ''1''] ! k = (if g ! k = a ! k then CHR ''2'' else CHR ''0'')"
        using Cons.prems(5) k by simp
    qed
    note IH = Cons.IH[OF d sub _ inv' fb', simplified, OF Cons.prems(3)]
    show ?thesis
      using IH True j inotin i5 Cons.prems(3) by (simp add: step)
  next
    case False
    have nomem: "g ! i \<noteq> a ! i \<Longrightarrow> Some (g ! i) \<notin> set ac"
      using member_find[OF Cons.prems(4), of "g ! i"] False by simp
    have step: "second_pass_step g i (fb, ac) = (fb, ac)"
      using False fbi nomem by (auto simp: second_pass_step_def)
    have fb': "\<forall>k\<in>set rest. fb ! k = (if g ! k = a ! k then CHR ''2'' else CHR ''0'')"
      using Cons.prems(5) by simp
    note IH = Cons.IH[OF d sub Cons.prems(3) Cons.prems(4) fb']
    show ?thesis
      using IH False inotin fbi by (auto simp: step)
  qed
qed

text \<open>
  What the two loops leave in \<^verbatim>\<open>feedback\<close>, position by position, for words of five
  letters.
\<close>

lemma get_feedback_marks:
  assumes "length guess = 5" and "length secret = 5"
  shows "\<exists>fb. get_feedback guess secret = Inr fb \<and> length fb = 5 \<and>
           map ((!) fb) [0..<5] =
             map mark_char (misplaced_pass guess secret [0..<5] (exact_positions guess secret))"
proof -
  let ?fb1 = "fold (\<lambda>i f. if guess ! i = secret ! i then f[i := CHR ''2''] else f) [0..<5] (replicate 5 CHR ''0'')"
  let ?ac1 = "fold (\<lambda>i c. if guess ! i = secret ! i then c[i := None] else c) [0..<5] (map Some secret)"
  have l1: "length ?fb1 = 5" by (simp add: fold_upd_length)
  have fb1: "\<forall>i\<in>set [0..<5]. ?fb1 ! i = (if guess ! i = secret ! i then CHR ''2'' else CHR ''0'')"
    by (simp add: fold_upd_nth)
  have inv: "ac_inv secret ?ac1 (exact_positions guess secret)"
    using assms by (auto simp: ac_inv_def fold_upd_length fold_upd_nth exact_positions_def)
  have r5: "set [0..<5] \<subseteq> {..<5::nat}" by auto
  let ?res = "fst (fold (second_pass_step guess) [0..<5] (?fb1, ?ac1))"
  from second_pass_fold[OF _ r5 l1 inv fb1]
  have "map ((!) ?res) [0..<5] =
          map mark_char (misplaced_pass guess secret [0..<5] (exact_positions guess secret))"
    and "length ?res = 5"
    by simp_all
  then show ?thesis using assms by (simp add: get_feedback_def first_pass_fold)
qed

lemma misplaced_pass_length: "length (misplaced_pass g s is consumed) = length is"
  by (induction "is" arbitrary: consumed) (auto split: option.splits)

lemma misplaced_pass_exact:
  "k < length is \<Longrightarrow>
   (misplaced_pass g s is consumed ! k = EXACT) = (g ! (is ! k) = s ! (is ! k))"
proof (induction "is" arbitrary: consumed k)
  case Nil
  then show ?case by simp
next
  case (Cons i rest)
  then show ?case
    by (cases k) (auto split: option.splits)
qed

lemma mark_char_two: "(mark_char m = CHR ''2'') = (m = EXACT)"
  by (cases m) auto

text \<open>
  C1: for a guess and a secret of five letters, \<^verbatim>\<open>get_feedback\<close> returns the pattern of
  the two-pass algorithm: the positions where the two words agree are EXACT and consume
  the secret's letter there; then, from left to right, a remaining position is MISPLACED
  when its letter still stands at an unconsumed position of the secret, whose leftmost such
  position is consumed, and ABSENT otherwise.
\<close>

theorem get_feedback_two_pass:
  assumes "length guess = 5" and "length secret = 5"
  shows "get_feedback guess secret = Inr (map mark_char (two_pass_pattern guess secret))"
proof -
  from get_feedback_marks[OF assms] obtain fb where
    fb: "get_feedback guess secret = Inr fb" and len: "length fb = 5"
    and marks: "map ((!) fb) [0..<5] =
                  map mark_char (misplaced_pass guess secret [0..<5] (exact_positions guess secret))"
    by blast
  have "fb = map ((!) fb) [0..<length fb]" by (simp only: map_nth)
  with len marks have "fb = map mark_char (two_pass_pattern guess secret)"
    by (simp add: two_pass_pattern_def)
  with fb show ?thesis by simp
qed

theorem get_feedback_two_pass_witness:
  "length ''SPEED'' = 5 \<and> length ''ERASE'' = 5 \<and>
   get_feedback ''SPEED'' ''ERASE'' = Inr (map mark_char (two_pass_pattern ''SPEED'' ''ERASE'')) \<and>
   two_pass_pattern ''SPEED'' ''ERASE'' = [MISPLACED, ABSENT, MISPLACED, MISPLACED, ABSENT]"
  using get_feedback_two_pass[of "''SPEED''" "''ERASE''"]
  by (simp add: two_pass_pattern_def exact_positions_def range5)

text \<open>
  C2, as the spec states it, is not what the code computes: the spec's example marks the
  'S' of SPEED and its second 'E' ABSENT against ERASE, i.e. the pattern 00100.
\<close>

theorem speed_erase_not_00100: "get_feedback ''SPEED'' ''ERASE'' \<noteq> Inr ''00100''"
  by (simp add: fb_eval)

text \<open>
  C2, amended: \<^verbatim>\<open>get_feedback("SPEED", "ERASE")\<close> is 10110. ERASE holds an 'S' and two
  'E's, so the 'S' and both 'E's of SPEED are MISPLACED; 'P' and 'D' are ABSENT.
\<close>

theorem speed_erase_10110: "get_feedback ''SPEED'' ''ERASE'' = Inr ''10110''"
  by (simp add: fb_eval)

text \<open>
  C8: for words of five letters, \<^verbatim>\<open>get_feedback(g, s)\<close> is the all-EXACT pattern 22222
  exactly when \<^verbatim>\<open>g == s\<close>.
\<close>

theorem get_feedback_all_exact_iff:
  assumes "length g = 5" and "length s = 5"
  shows "(get_feedback g s = Inr ''22222'') = (g = s)"
proof -
  from get_feedback_marks[OF assms] obtain fb where
    fb: "get_feedback g s = Inr fb" and len: "length fb = 5"
    and marks: "map ((!) fb) [0..<5] =
                  map mark_char (misplaced_pass g s [0..<5] (exact_positions g s))"
    by blast
  let ?ms = "misplaced_pass g s [0..<5] (exact_positions g s)"
  have nth: "\<And>k. k < 5 \<Longrightarrow> fb ! k = mark_char (?ms ! k)"
  proof -
    fix k :: nat assume k: "k < 5"
    have "map ((!) fb) [0..<5] ! k = map mark_char ?ms ! k" using marks by simp
    then show "fb ! k = mark_char (?ms ! k)"
      using k by (simp add: misplaced_pass_length)
  qed
  have two: "\<And>k. k < 5 \<Longrightarrow> ''22222'' ! k = CHR ''2''"
    by (auto simp: less_Suc_eq eval_nat_numeral)
  have "(fb = ''22222'') = (\<forall>k<5. fb ! k = CHR ''2'')"
    using len two by (auto simp: list_eq_iff_nth_eq)
  also have "\<dots> = (\<forall>k<5. ?ms ! k = EXACT)"
    using nth by (auto simp: mark_char_two)
  also have "\<dots> = (\<forall>k<5. g ! k = s ! k)"
    by (simp add: misplaced_pass_exact)
  also have "\<dots> = (g = s)"
    using assms by (auto simp: list_eq_iff_nth_eq)
  finally show ?thesis using fb by simp
qed

theorem get_feedback_all_exact_iff_witness:
  "length ''CRANE'' = 5 \<and> length ''CRATE'' = 5 \<and>
   get_feedback ''CRANE'' ''CRANE'' = Inr ''22222'' \<and>
   get_feedback ''CRANE'' ''CRATE'' \<noteq> Inr ''22222''"
  using get_feedback_all_exact_iff[of "''CRANE''" "''CRANE''"]
        get_feedback_all_exact_iff[of "''CRANE''" "''CRATE''"]
  by simp

section \<open>The filter: what it keeps\<close>

lemma lookup_is_empty: "Mapping.is_empty m \<Longrightarrow> Mapping.lookup m k = None"
  by (metis Mapping.is_empty_def empty_iff keys_is_none_rep Option.is_none_def)

lemma lookup_nonempty: "Mapping.lookup m k = Some v \<Longrightarrow> \<not> Mapping.is_empty m"
  using lookup_is_empty[of m k] by auto

lemma helper_pattern_empty: "Mapping.is_empty pp \<Longrightarrow> helper_pattern pp w g = get_feedback g w"
  by (simp add: helper_pattern_def lookup_is_empty)

text \<open>
  The pattern that solver.py's lookup returns is the one helper.py's read-only lookup
  returns; the entries it adds change no later lookup.
\<close>

lemma lookup_or_compute_char:
  "lookup_or_compute word guess st =
     (case helper_pattern (precomputed_patterns st) word guess of
        Inl e \<Rightarrow> Inl e
      | Inr p \<Rightarrow> Inr (p, snd (projr (lookup_or_compute word guess st))))"
  by (auto simp: lookup_or_compute_def helper_pattern_def Let_def lookup_default_def
           split: option.splits sum.splits)

lemma lookup_or_compute_stable:
  "lookup_or_compute word guess st = Inr (p, st') \<Longrightarrow>
     (\<forall>w g. helper_pattern (precomputed_patterns st') w g = helper_pattern (precomputed_patterns st) w g)
     \<and> \<not> Mapping.is_empty (precomputed_patterns st')"
  by (auto simp: lookup_or_compute_def helper_pattern_def Let_def lookup_default_def
                 lookup_update' lookup_nonempty
           split: option.splits sum.splits if_splits)

lemma get_feedback_total:
  "5 \<le> length g \<Longrightarrow> 5 \<le> length w \<Longrightarrow> \<exists>p. get_feedback g w = Inr p"
  by (simp add: get_feedback_def)

lemma helper_pattern_total:
  "5 \<le> length g \<Longrightarrow> 5 \<le> length w \<Longrightarrow> \<exists>p. helper_pattern pp w g = Inr p"
  using get_feedback_total[of g w] by (auto simp: helper_pattern_def split: option.splits)

lemma helper_pattern_agrees:
  "cache_agrees pp words guesses \<Longrightarrow> w \<in> set words \<Longrightarrow> g \<in> set guesses \<Longrightarrow>
   helper_pattern pp w g = get_feedback g w"
  by (auto simp: cache_agrees_def helper_pattern_def split: option.splits)

lemma filter_cached_char:
  assumes "\<forall>w\<in>set words. \<exists>p. helper_pattern (precomputed_patterns st) w guess = Inr p"
  shows "\<exists>st'. filter_cached guess feedback words st =
            Inr (filter (\<lambda>w. helper_pattern (precomputed_patterns st) w guess = Inr feedback) words, st')
          \<and> (\<forall>w g. helper_pattern (precomputed_patterns st') w g = helper_pattern (precomputed_patterns st) w g)
          \<and> (words \<noteq> [] \<longrightarrow> \<not> Mapping.is_empty (precomputed_patterns st'))
          \<and> (words = [] \<longrightarrow> st' = st)"
  using assms
proof (induction words arbitrary: st)
  case Nil
  then show ?case by simp
next
  case (Cons word words)
  from Cons.prems obtain p where p: "helper_pattern (precomputed_patterns st) word guess = Inr p"
    by auto
  then obtain st1 where l: "lookup_or_compute word guess st = Inr (p, st1)"
    using lookup_or_compute_char[of word guess st] by simp
  note s1 = lookup_or_compute_stable[OF l]
  have "\<forall>w\<in>set words. \<exists>p. helper_pattern (precomputed_patterns st1) w guess = Inr p"
    using Cons.prems s1 by simp
  from Cons.IH[OF this] obtain st2 where
    f: "filter_cached guess feedback words st1 =
          Inr (filter (\<lambda>w. helper_pattern (precomputed_patterns st1) w guess = Inr feedback) words, st2)"
    and s2: "\<forall>w g. helper_pattern (precomputed_patterns st2) w g = helper_pattern (precomputed_patterns st1) w g"
    and ne: "words \<noteq> [] \<longrightarrow> \<not> Mapping.is_empty (precomputed_patterns st2)"
    and e: "words = [] \<longrightarrow> st2 = st1"
    by blast
  have ne2: "\<not> Mapping.is_empty (precomputed_patterns st2)"
    using ne e s1 by (cases words) auto
  show ?case
    using l f s1 s2 ne2 p by (intro exI[of _ st2]) auto
qed

lemma filter_computed_char:
  "\<forall>w\<in>set words. \<exists>p. get_feedback guess w = Inr p \<Longrightarrow>
   filter_computed guess feedback words =
     Inr (filter (\<lambda>w. get_feedback guess w = Inr feedback) words)"
  by (induction words) auto

lemma helper_filter_cached_char:
  "\<forall>w\<in>set words. \<exists>p. helper_pattern pp w guess = Inr p \<Longrightarrow>
   helper_filter_cached pp guess feedback words =
     Inr (filter (\<lambda>w. helper_pattern pp w guess = Inr feedback) words)"
  by (induction words) auto

lemma filter_loop_char:
  assumes "\<forall>w\<in>set ws. \<forall>(g, f)\<in>set H. \<exists>p. helper_pattern (precomputed_patterns st) w g = Inr p"
  shows "\<exists>st'. filter_loop H ws st =
            Inr (filter (\<lambda>w. \<forall>(g, f)\<in>set H. helper_pattern (precomputed_patterns st) w g = Inr f) ws, st')
          \<and> (\<forall>w g. helper_pattern (precomputed_patterns st') w g = helper_pattern (precomputed_patterns st) w g)
          \<and> Mapping.is_empty (precomputed_patterns st') = Mapping.is_empty (precomputed_patterns st)"
  using assms
proof (induction H arbitrary: ws st)
  case Nil
  then show ?case by simp
next
  case (Cons gf H)
  obtain guess feedback where gf: "gf = (guess, feedback)" by (cases gf)
  let ?pp = "precomputed_patterns st"
  let ?P1 = "\<lambda>w. helper_pattern ?pp w guess = Inr feedback"
  have tot1: "\<forall>w\<in>set ws. \<exists>p. helper_pattern ?pp w guess = Inr p"
    using Cons.prems gf by auto
  have step: "\<exists>st1. (if \<not> Mapping.is_empty ?pp
                 then filter_cached guess feedback ws st
                 else (case filter_computed guess feedback ws of Inl e \<Rightarrow> Inl e | Inr n \<Rightarrow> Inr (n, st)))
               = Inr (filter ?P1 ws, st1)
            \<and> (\<forall>w g. helper_pattern (precomputed_patterns st1) w g = helper_pattern ?pp w g)
            \<and> Mapping.is_empty (precomputed_patterns st1) = Mapping.is_empty ?pp"
  proof (cases "Mapping.is_empty ?pp")
    case True
    then show ?thesis
      using tot1 filter_computed_char[of ws guess feedback]
      by (simp add: helper_pattern_empty)
  next
    case False
    from filter_cached_char[OF tot1, of feedback] obtain st1 where
      "filter_cached guess feedback ws st = Inr (filter ?P1 ws, st1)"
      "\<forall>w g. helper_pattern (precomputed_patterns st1) w g = helper_pattern ?pp w g"
      "ws \<noteq> [] \<longrightarrow> \<not> Mapping.is_empty (precomputed_patterns st1)"
      "ws = [] \<longrightarrow> st1 = st"
      by blast
    then show ?thesis using False by (intro exI[of _ st1]) (cases ws; auto)
  qed
  then obtain st1 where
    s1: "(if \<not> Mapping.is_empty ?pp
                 then filter_cached guess feedback ws st
                 else (case filter_computed guess feedback ws of Inl e \<Rightarrow> Inl e | Inr n \<Rightarrow> Inr (n, st)))
               = Inr (filter ?P1 ws, st1)"
    and st1: "\<forall>w g. helper_pattern (precomputed_patterns st1) w g = helper_pattern ?pp w g"
    and e1: "Mapping.is_empty (precomputed_patterns st1) = Mapping.is_empty ?pp"
    by blast
  have loop: "filter_loop (gf # H) ws st = filter_loop H (filter ?P1 ws) st1"
    using s1 gf by (auto split: if_splits sum.splits)
  have "\<forall>w\<in>set (filter ?P1 ws). \<forall>(g, f)\<in>set H. \<exists>p. helper_pattern (precomputed_patterns st1) w g = Inr p"
    using Cons.prems st1 by auto
  from Cons.IH[OF this] obtain st' where
    r: "filter_loop H (filter ?P1 ws) st1 =
         Inr (filter (\<lambda>w. \<forall>(g, f)\<in>set H. helper_pattern (precomputed_patterns st1) w g = Inr f) (filter ?P1 ws), st')"
    and s': "\<forall>w g. helper_pattern (precomputed_patterns st') w g = helper_pattern (precomputed_patterns st1) w g"
    and e': "Mapping.is_empty (precomputed_patterns st') = Mapping.is_empty (precomputed_patterns st1)"
    by blast
  have "filter (\<lambda>w. \<forall>(g, f)\<in>set H. helper_pattern (precomputed_patterns st1) w g = Inr f) (filter ?P1 ws)
        = filter (\<lambda>w. \<forall>(g, f)\<in>set (gf # H). helper_pattern ?pp w g = Inr f) ws"
    using st1 gf by (auto intro: filter_cong)
  then show ?case
    using loop r s' e' st1 e1 by (intro exI[of _ st']) simp
qed

lemma helper_filter_loop_char:
  assumes "\<forall>w\<in>set ws. \<forall>(g, f)\<in>set H. \<exists>p. helper_pattern pp w g = Inr p"
  shows "helper_filter_loop pp H ws =
            Inr (filter (\<lambda>w. \<forall>(g, f)\<in>set H. helper_pattern pp w g = Inr f) ws)"
  using assms
proof (induction H arbitrary: ws)
  case Nil
  then show ?case by simp
next
  case (Cons gf H)
  obtain guess feedback where gf: "gf = (guess, feedback)" by (cases gf)
  let ?P1 = "\<lambda>w. helper_pattern pp w guess = Inr feedback"
  have tot1: "\<forall>w\<in>set ws. \<exists>p. helper_pattern pp w guess = Inr p"
    using Cons.prems gf by auto
  have step: "(if \<not> Mapping.is_empty pp
            then helper_filter_cached pp guess feedback ws
            else filter_computed guess feedback ws) = Inr (filter ?P1 ws)"
    using tot1 helper_filter_cached_char[of ws pp guess feedback]
      filter_computed_char[of ws guess feedback]
    by (auto simp: helper_pattern_empty)
  have "\<forall>w\<in>set (filter ?P1 ws). \<forall>(g, f)\<in>set H. \<exists>p. helper_pattern pp w g = Inr p"
    using Cons.prems by auto
  from Cons.IH[OF this] show ?case
    using step gf by (auto intro: filter_cong)
qed

text \<open>
  For words of five letters no lookup fails, and both filters keep the words whose looked-up
  pattern is the recorded feedback for every pair of the history.
\<close>

definition kept_by :: "pattern_cache \<Rightarrow> string list \<Rightarrow> string list \<Rightarrow> string \<Rightarrow> bool" where
  "kept_by pp guesses feedbacks w \<longleftrightarrow>
     (\<forall>(g, f)\<in>set (zip guesses feedbacks). helper_pattern pp w g = Inr f)"

lemma kept_by_fun:
  "kept_by pp guesses feedbacks =
     (\<lambda>w. \<forall>(g, f)\<in>set (zip guesses feedbacks). helper_pattern pp w g = Inr f)"
  by (simp add: fun_eq_iff kept_by_def)

lemma history_total:
  assumes "\<forall>w\<in>set ws. length w = 5" and "\<forall>g\<in>set guesses. length g = 5"
  shows "\<forall>w\<in>set ws. \<forall>(g, f)\<in>set (zip guesses feedbacks). \<exists>p. helper_pattern pp w g = Inr p"
proof (intro ballI, clarify)
  fix w g f assume "w \<in> set ws" and "(g, f) \<in> set (zip guesses feedbacks)"
  then have "length w = 5" and "length g = 5"
    using assms by (auto dest: set_zip_leftD)
  then show "\<exists>p. helper_pattern pp w g = Inr p"
    by (simp add: helper_pattern_total)
qed

lemma filter_possible_answers_char:
  assumes "\<forall>w\<in>set ws. length w = 5" and "\<forall>g\<in>set guesses. length g = 5"
  shows "\<exists>st'. filter_possible_answers ws guesses feedbacks st =
            Inr (filter (kept_by (precomputed_patterns st) guesses feedbacks) ws, st')
          \<and> kept_by (precomputed_patterns st') guesses feedbacks
              = kept_by (precomputed_patterns st) guesses feedbacks"
proof -
  from filter_loop_char[OF history_total[OF assms]]
  obtain st' where
    "filter_loop (zip guesses feedbacks) ws st =
       Inr (filter (\<lambda>w. \<forall>(g, f)\<in>set (zip guesses feedbacks).
                          helper_pattern (precomputed_patterns st) w g = Inr f) ws, st')"
    and "\<forall>w g. helper_pattern (precomputed_patterns st') w g = helper_pattern (precomputed_patterns st) w g"
    by blast
  then show ?thesis
    by (intro exI[of _ st']) (simp add: filter_possible_answers_def kept_by_fun)
qed

lemma helper_filter_possible_answers_char:
  assumes "\<forall>w\<in>set ws. length w = 5" and "\<forall>g\<in>set guesses. length g = 5"
  shows "helper_filter_possible_answers pp ws guesses feedbacks =
           Inr (filter (kept_by pp guesses feedbacks) ws)"
  using helper_filter_loop_char[OF history_total[OF assms]]
  by (simp add: helper_filter_possible_answers_def kept_by_fun)

lemma kept_by_agrees:
  assumes "cache_agrees pp ws guesses" and "w \<in> set ws"
  shows "kept_by pp guesses feedbacks w = consistent_with guesses feedbacks w"
proof -
  have "\<And>g f. (g, f) \<in> set (zip guesses feedbacks) \<Longrightarrow> helper_pattern pp w g = get_feedback g w"
    using assms by (auto dest: set_zip_leftD intro: helper_pattern_agrees)
  then show ?thesis
    by (auto simp: kept_by_def consistent_with_def)
qed

text \<open>
  C3: for every history, \<^verbatim>\<open>filter_possible_answers\<close> (solver.py's, which fills the cache,
  and helper.py's, which only reads it) returns exactly the words \<^verbatim>\<open>w\<close> of the answer
  list with \<^verbatim>\<open>get_feedback(guess, w) == feedback\<close> for every pair of the history, listed
  as the answer list has them, when the cache entries for these words and guesses are the
  encoder's patterns. The answer words and the guesses are words of five letters.
\<close>

theorem filter_possible_answers_exact:
  assumes "\<forall>w\<in>set possible_answers. length w = 5"
      and "\<forall>g\<in>set guesses. length g = 5"
      and "cache_agrees (precomputed_patterns st) possible_answers guesses"
      and "cache_agrees pp possible_answers guesses"
  shows "(\<exists>st'. filter_possible_answers possible_answers guesses feedbacks st =
                  Inr (filter (consistent_with guesses feedbacks) possible_answers, st'))
       \<and> helper_filter_possible_answers pp possible_answers guesses feedbacks =
           Inr (filter (consistent_with guesses feedbacks) possible_answers)"
proof -
  have k1: "filter (kept_by (precomputed_patterns st) guesses feedbacks) possible_answers
            = filter (consistent_with guesses feedbacks) possible_answers"
    using kept_by_agrees[OF assms(3)] by (auto intro: filter_cong)
  have k2: "filter (kept_by pp guesses feedbacks) possible_answers
            = filter (consistent_with guesses feedbacks) possible_answers"
    using kept_by_agrees[OF assms(4)] by (auto intro: filter_cong)
  from filter_possible_answers_char[OF assms(1,2), of feedbacks st] k1
  have "\<exists>st'. filter_possible_answers possible_answers guesses feedbacks st =
                  Inr (filter (consistent_with guesses feedbacks) possible_answers, st')"
    by auto
  moreover from helper_filter_possible_answers_char[OF assms(1,2), of pp feedbacks] k2
  have "helper_filter_possible_answers pp possible_answers guesses feedbacks =
           Inr (filter (consistent_with guesses feedbacks) possible_answers)"
    by simp
  ultimately show ?thesis by simp
qed

theorem filter_possible_answers_exact_witness:
  "cache_agrees (Mapping.update ''crate'' (Mapping.update ''crane'' ''22202'' Mapping.empty) Mapping.empty)
      [''crane'', ''crate'', ''slate''] [''crane'']
   \<and> (\<exists>st'. filter_possible_answers [''crane'', ''crate'', ''slate''] [''crane''] [''22202'']
          \<lparr>precomputed_patterns =
              Mapping.update ''crate'' (Mapping.update ''crane'' ''22202'' Mapping.empty) Mapping.empty,
           cache_dirty = False\<rparr> = Inr ([''crate''], st'))
   \<and> helper_filter_possible_answers
         (Mapping.update ''crate'' (Mapping.update ''crane'' ''22202'' Mapping.empty) Mapping.empty)
         [''crane'', ''crate'', ''slate''] [''crane''] [''22202''] = Inr [''crate'']"
  using filter_possible_answers_exact[of "[''crane'', ''crate'', ''slate'']" "[''crane'']"
      "\<lparr>precomputed_patterns =
              Mapping.update ''crate'' (Mapping.update ''crane'' ''22202'' Mapping.empty) Mapping.empty,
           cache_dirty = False\<rparr>"
      "Mapping.update ''crate'' (Mapping.update ''crane'' ''22202'' Mapping.empty) Mapping.empty"
      "[''22202'']"]
  by (simp add: cache_agrees_def consistent_with_def fb_eval)

text \<open>
  C9: the filter's result is a subset of the candidate list it starts from, and the filter
  run again with the same history on its own output (in the state the first run left)
  returns that output unchanged. The words and the guesses are words of five letters.
\<close>

theorem filter_subset_idempotent:
  assumes "\<forall>w\<in>set C. length w = 5" and "\<forall>g\<in>set guesses. length g = 5"
  shows "(\<exists>R st'. filter_possible_answers C guesses feedbacks st = Inr (R, st')
            \<and> set R \<subseteq> set C
            \<and> (\<exists>st''. filter_possible_answers R guesses feedbacks st' = Inr (R, st'')))
       \<and> (\<exists>R. helper_filter_possible_answers pp C guesses feedbacks = Inr R
            \<and> set R \<subseteq> set C
            \<and> helper_filter_possible_answers pp R guesses feedbacks = Inr R)"
proof
  let ?K = "kept_by (precomputed_patterns st) guesses feedbacks"
  from filter_possible_answers_char[OF assms, of feedbacks st] obtain st' where
    run1: "filter_possible_answers C guesses feedbacks st = Inr (filter ?K C, st')"
    and same: "kept_by (precomputed_patterns st') guesses feedbacks = ?K"
    by blast
  have lenR: "\<forall>w\<in>set (filter ?K C). length w = 5" using assms(1) by simp
  from filter_possible_answers_char[OF lenR assms(2), of feedbacks st'] same
  obtain st'' where
    "filter_possible_answers (filter ?K C) guesses feedbacks st' = Inr (filter ?K (filter ?K C), st'')"
    by auto
  then have run2: "filter_possible_answers (filter ?K C) guesses feedbacks st' = Inr (filter ?K C, st'')"
    by simp
  show "\<exists>R st'. filter_possible_answers C guesses feedbacks st = Inr (R, st')
            \<and> set R \<subseteq> set C
            \<and> (\<exists>st''. filter_possible_answers R guesses feedbacks st' = Inr (R, st''))"
    using run1 run2 by (intro exI[of _ "filter ?K C"] exI[of _ st']) auto
next
  let ?K = "kept_by pp guesses feedbacks"
  have lenR: "\<forall>w\<in>set (filter ?K C). length w = 5" using assms(1) by simp
  have run1: "helper_filter_possible_answers pp C guesses feedbacks = Inr (filter ?K C)"
    by (rule helper_filter_possible_answers_char[OF assms])
  have run2: "helper_filter_possible_answers pp (filter ?K C) guesses feedbacks = Inr (filter ?K C)"
    using helper_filter_possible_answers_char[OF lenR assms(2), of pp feedbacks] by simp
  show "\<exists>R. helper_filter_possible_answers pp C guesses feedbacks = Inr R
            \<and> set R \<subseteq> set C
            \<and> helper_filter_possible_answers pp R guesses feedbacks = Inr R"
    using run1 run2 by (intro exI[of _ "filter ?K C"]) auto
qed

theorem filter_subset_idempotent_witness:
  "(\<exists>R st'. filter_possible_answers [''crane'', ''crate'', ''slate''] [''crane''] [''22202'']
          \<lparr>precomputed_patterns = Mapping.empty, cache_dirty = False\<rparr> = Inr (R, st')
       \<and> set R \<subseteq> set [''crane'', ''crate'', ''slate'']
       \<and> (\<exists>st''. filter_possible_answers R [''crane''] [''22202''] st' = Inr (R, st'')))
   \<and> (\<exists>R. helper_filter_possible_answers Mapping.empty [''crane'', ''crate'', ''slate''] [''crane''] [''22202''] = Inr R
       \<and> set R \<subseteq> set [''crane'', ''crate'', ''slate'']
       \<and> helper_filter_possible_answers Mapping.empty R [''crane''] [''22202''] = Inr R)"
  using filter_subset_idempotent[of "[''crane'', ''crate'', ''slate'']" "[''crane'']" "[''22202'']"
      "\<lparr>precomputed_patterns = Mapping.empty, cache_dirty = False\<rparr>" Mapping.empty]
  by simp

text \<open>
  C10: the list that \<^verbatim>\<open>filter_possible_answers\<close> returns is the answer list with some
  words left out: the surviving words stand in the order they have in
  \<^verbatim>\<open>possible_answers\<close>. The words and the guesses are words of five letters.
\<close>

theorem filter_preserves_order:
  assumes "\<forall>w\<in>set possible_answers. length w = 5" and "\<forall>g\<in>set guesses. length g = 5"
  shows "(\<exists>R st'. filter_possible_answers possible_answers guesses feedbacks st = Inr (R, st')
            \<and> subseq R possible_answers)
       \<and> (\<exists>R. helper_filter_possible_answers pp possible_answers guesses feedbacks = Inr R
            \<and> subseq R possible_answers)"
proof
  from filter_possible_answers_char[OF assms, of feedbacks st] obtain st' where
    "filter_possible_answers possible_answers guesses feedbacks st =
       Inr (filter (kept_by (precomputed_patterns st) guesses feedbacks) possible_answers, st')"
    by blast
  then show "\<exists>R st'. filter_possible_answers possible_answers guesses feedbacks st = Inr (R, st')
            \<and> subseq R possible_answers"
    by (auto intro: subseq_filter_left)
next
  show "\<exists>R. helper_filter_possible_answers pp possible_answers guesses feedbacks = Inr R
            \<and> subseq R possible_answers"
    using helper_filter_possible_answers_char[OF assms, of pp feedbacks]
    by (auto intro: subseq_filter_left)
qed

theorem filter_preserves_order_witness:
  "(\<exists>R st'. filter_possible_answers [''crane'', ''crate'', ''slate''] [''slate''] [''00202'']
          \<lparr>precomputed_patterns = Mapping.empty, cache_dirty = False\<rparr> = Inr (R, st')
       \<and> subseq R [''crane'', ''crate'', ''slate''])
   \<and> (\<exists>R. helper_filter_possible_answers Mapping.empty [''crane'', ''crate'', ''slate''] [''slate''] [''00202''] = Inr R
       \<and> subseq R [''crane'', ''crate'', ''slate''])"
  using filter_preserves_order[of "[''crane'', ''crate'', ''slate'']" "[''slate'']" "[''00202'']"
      "\<lparr>precomputed_patterns = Mapping.empty, cache_dirty = False\<rparr>" Mapping.empty]
  by simp

section \<open>The hard-mode checker: what the history leaves and what the checks test\<close>


























section \<open>The guess selector: buckets, the scoring loop and the choice\<close>



lemma first_occurrences_set [simp]: "set (first_occurrences xs) = set xs"
  by (simp add: first_occurrences_def)

lemma first_occurrences_distinct [simp]: "distinct (first_occurrences xs)"
  by (simp add: first_occurrences_def)

















text \<open>
  C6: a singleton candidate list must return its word, as the comment of the function says
  (\<^verbatim>\<open># If only one possible answer remains, guess it!\<close>). The function tests the
  first-guess fast path before the degenerate cases, and the fast path applies whenever the
  candidates are the word set of the answer file: with a first-guess cache that names
  SLATE and an answer file whose only word is CRANE, the singleton candidate list CRANE
  gets SLATE.
\<close>

theorem singleton_fast_path_returns_other_word:
  "minimax_entropy slate_first exact_arith remdups [''crane''] [''slate''] empty_cache
     = Inr (''slate'', empty_cache)"
  by (simp add: minimax_entropy_def first_guess_shortcut_def slate_first_def)

text \<open>
  Where the fast path does not apply, the degenerate cases are as C6 says: ValueError for
  an empty candidate list, the word of a singleton candidate list without scoring. The
  fast path cannot apply to them when there is no first-guess cache, or when the answer
  file holds two different words.
\<close>

lemma minimax_entropy_degenerate:
  assumes "first_guess_shortcut env possible_answers allowed_guesses = Inr None"
  shows "(possible_answers = [] \<longrightarrow>
            minimax_entropy env ar list_of_set possible_answers allowed_guesses st = Inl ValueError)
       \<and> (\<forall>w. possible_answers = [w] \<longrightarrow>
            minimax_entropy env ar list_of_set possible_answers allowed_guesses st = Inr (w, st))"
  using assms by (auto simp: minimax_entropy_def)

lemma minimax_entropy_degenerate_example:
  "first_guess_shortcut no_first_guess [''CRANE''] [''SLATE''] = Inr None
   \<and> first_guess_shortcut no_first_guess [] [''SLATE''] = Inr None
   \<and> minimax_entropy no_first_guess exact_arith remdups [''CRANE''] [''SLATE''] empty_cache
       = Inr (''CRANE'', empty_cache)
   \<and> minimax_entropy no_first_guess exact_arith remdups [] [''SLATE''] empty_cache = Inl ValueError"
  using minimax_entropy_degenerate[of no_first_guess "[''CRANE'']" "[''SLATE'']" exact_arith remdups empty_cache]
        minimax_entropy_degenerate[of no_first_guess "[]" "[''SLATE'']" exact_arith remdups empty_cache]
  by (simp add: first_guess_shortcut_def no_first_guess_def)

lemma first_guess_shortcut_other_words:
  "first_guess_cache env = Some cache \<Longrightarrow> answers_file env = Some ws \<Longrightarrow>
   set possible_answers \<noteq> set ws \<Longrightarrow>
   first_guess_shortcut env possible_answers allowed_guesses = Inr None"
  unfolding first_guess_shortcut_def by simp

lemma fast_path_spares_degenerate:
  assumes "first_guess_cache env = None
           \<or> (\<exists>ws a b. answers_file env = Some ws \<and> a \<in> set ws \<and> b \<in> set ws \<and> a \<noteq> b)"
  shows "first_guess_shortcut env [] allowed_guesses = Inr None
       \<and> first_guess_shortcut env [w] allowed_guesses = Inr None"
proof (cases "first_guess_cache env")
  case None
  then show ?thesis by (simp add: first_guess_shortcut_def)
next
  case (Some cache)
  with assms have "\<exists>ws a b. answers_file env = Some ws \<and> a \<in> set ws \<and> b \<in> set ws \<and> a \<noteq> b"
    by simp
  then obtain ws a b where f: "answers_file env = Some ws"
    and a: "a \<in> set ws" and b: "b \<in> set ws" and ab: "a \<noteq> b"
    by blast
  have n0: "set [] \<noteq> set ws" using a by auto
  have n1: "set [w] \<noteq> set ws"
    using a b ab by (metis empty_iff insert_iff list.set(1) list.set(2))
  show ?thesis
    by (intro conjI first_guess_shortcut_other_words[OF Some f n0]
              first_guess_shortcut_other_words[OF Some f n1])
qed

section \<open>The simulation harness\<close>

lemma range_1_7: "[Suc 0..<7] = [1, 2, 3, 4, 5, 6]"
  by (simp add: upt_rec)

text \<open>
  C7 asks \<^verbatim>\<open>simulate_game\<close> to return a number of rounds from 1 to 7 and never to
  raise. With \<^verbatim>\<open>minimax_entropy\<close> as the strategy, as \<^verbatim>\<open>calculate_average_tries\<close>
  calls it, the first round already raises ValueError: the strategy returns a word of five
  letters and the loop unpacks it into two names. The hard-mode harness does the same.
\<close>

theorem simulate_game_raises:
  "simulate_game ''crane'' (minimax_entropy no_first_guess exact_arith remdups)
      [''crane'', ''slate''] [''crane'', ''slate''] empty_cache = Inl ValueError
   \<and> simulate_game_hard_mode no_first_guess exact_arith remdups
      [''crane'', ''slate''] [''crane'', ''slate''] ''crane'' empty_cache = Inl ValueError"
  by (simp add: simulate_game_def simulate_game_hard_mode_def range_1_7 unpack_pair_def
        minimax_entropy_hard_mode_def enforce_hard_mode_constraints_def record_history_def
        minimax_entropy_def first_guess_shortcut_def no_first_guess_def empty_cache_def
        count_patterns_def expected_size_def less_than_best_def exact_arith_def fb_eval)

lemma simulate_game_unpack:
  assumes "strategy_func possible_answers allowed_guesses st = Inr (w, st1)" and "length w \<noteq> 2"
  shows "simulate_game answer strategy_func allowed_guesses possible_answers st = Inl ValueError"
  using assms by (simp add: simulate_game_def range_1_7 unpack_pair_def)

end
